theory Spec2Isabelle
  imports Complex_Main "HOL-Library.Word" "HOL-Library.Log_Nat" "HOL-Library.Monad_Syntax"
begin

section \<open>Data model\<close>

text \<open>
  Both steppers are class templates over a state vector type \<open>State\<close> and a time type
  \<open>Time\<close>. The state vector is a sequence of numbers, modelled as a list; the element type
  and the time type are modelled as exact real numbers, so the arithmetic below is the
  arithmetic of the source without rounding. For the scenario that fixes the numbers a
  \<open>double\<close> computation yields, a second model of the Improved Euler step, further down,
  rounds every operation as \<open>double\<close> does.

  The system is a callable invoked as \<open>system(x, dxdt, t)\<close>: it reads the state \<open>x\<close> and
  the time \<open>t\<close> and writes the derivative into the buffer \<open>dxdt\<close> it is handed. The model
  of a system is the function from \<open>x\<close>, the old contents of \<open>dxdt\<close> and \<open>t\<close> to the
  new contents of \<open>dxdt\<close>: a system that writes nothing but \<open>dxdt\<close> and keeps no state
  of its own between calls.
\<close>

type_synonym state_type = "real list"
type_synonym time_type = real
type_synonym system = "state_type \<Rightarrow> state_type \<Rightarrow> time_type \<Rightarrow> state_type"

text \<open>One invocation of the system callable: the state and the time it was called with.\<close>

type_synonym invocation = "state_type \<times> time_type"

section \<open>Iterator algebra of the Improved Euler stepper\<close>

text \<open>
  Modelled from the spec: \<open>chainsaw/detail/it_algebra.hpp\<close> is included by the stepper
  but is not among the sources. \<open>scale_two_sum(dest, coeffA, a, coeffB, b)\<close>: for every
  index i, \<open>dest[i] = coeffA*a[i] + coeffB*b[i]\<close>. The stepper passes the range
  \<open>[dest.begin(), dest.end())\<close> and the begin iterators of \<open>a\<close> and \<open>b\<close>, so the loop
  runs over the length of \<open>dest\<close>; reading \<open>a\<close> or \<open>b\<close> past its end is undefined
  behaviour, the value \<open>None\<close> here.
\<close>

fun scale_two_sum ::
  "state_type \<Rightarrow> real \<Rightarrow> state_type \<Rightarrow> real \<Rightarrow> state_type \<Rightarrow> state_type option" where
  "scale_two_sum [] a1 xs a2 ys = Some []"
| "scale_two_sum (d # ds) a1 (x # xs) a2 (y # ys) =
     map_option ((#) (a1 * x + a2 * y)) (scale_two_sum ds a1 xs a2 ys)"
| "scale_two_sum (d # ds) a1 xs a2 ys = None"

text \<open>
  Modelled from the spec: \<open>scale_two_sum_accumulate(dest, coeffA, a, coeffB, b)\<close> of the
  same missing header: for every index i, \<open>dest[i] += coeffA*a[i] + coeffB*b[i]\<close>.
\<close>

fun scale_two_sum_accumulate ::
  "state_type \<Rightarrow> real \<Rightarrow> state_type \<Rightarrow> real \<Rightarrow> state_type \<Rightarrow> state_type option" where
  "scale_two_sum_accumulate [] a1 xs a2 ys = Some []"
| "scale_two_sum_accumulate (d # ds) a1 (x # xs) a2 (y # ys) =
     map_option ((#) (d + (a1 * x + a2 * y))) (scale_two_sum_accumulate ds a1 xs a2 ys)"
| "scale_two_sum_accumulate (d # ds) a1 xs a2 ys = None"

section \<open>The Improved Euler stepper\<close>

text \<open>
  The class has four data members. \<open>m_steps\<close> is an \<open>unsigned long\<close>, taken as 64 bits
  wide (LP64); \<open>++m_steps\<close> wraps around.
\<close>

record stepper_improved_euler =
  m_dxdt1 :: state_type
  m_dxdt2 :: state_type
  m_x :: state_type
  m_steps :: "64 word"

text \<open>
  The constructor value-initialises every member. What \<open>State()\<close> is depends on the state
  type (empty for a \<open>std::vector\<close>, N zeros for a \<open>std::array\<close> of N numbers), so it is a
  parameter.
\<close>

definition stepper_improved_euler_new :: "state_type \<Rightarrow> stepper_improved_euler" where
  "stepper_improved_euler_new State0 =
     \<lparr>m_dxdt1 = State0, m_dxdt2 = State0, m_x = State0, m_steps = 0\<rparr>"

text \<open>\<open>order_type\<close> is \<open>unsigned short\<close>.\<close>

definition stepper_improved_euler_order_step :: "stepper_improved_euler \<Rightarrow> 16 word" where
  "stepper_improved_euler_order_step stepper = 1"

text \<open>
  \<open>resize\<close> of the state type, as \<open>std::vector::resize\<close> does it: the first elements are
  kept and new ones are value-initialised.
\<close>

definition resize :: "nat \<Rightarrow> state_type \<Rightarrow> state_type" where
  "resize n xs = take n xs @ replicate (n - length xs) 0"

text \<open>
  \<open>has_resize\<close> is the value of the trait \<open>chainsaw::detail::has_resize<state_type>\<close>,
  declared in a header that is not among the sources: a parameter.
\<close>

definition stepper_improved_euler_adjust_size ::
  "bool \<Rightarrow> stepper_improved_euler \<Rightarrow> state_type \<Rightarrow> stepper_improved_euler" where
  "stepper_improved_euler_adjust_size has_resize stepper reference =
     (if has_resize
      then stepper\<lparr>m_dxdt1 := resize (length reference) (m_dxdt1 stepper),
                m_dxdt2 := resize (length reference) (m_dxdt2 stepper),
                m_x := resize (length reference) (m_x stepper)\<rparr>
      else stepper)"

definition stepper_improved_euler_steps :: "stepper_improved_euler \<Rightarrow> 64 word" where
  "stepper_improved_euler_steps stepper = m_steps stepper"

text \<open>
  \<open>do_step\<close> updates the stepper and the caller's state \<open>x\<close> in place. The model returns
  the new stepper, the new \<open>x\<close> and the invocations of the system it made, in order;
  \<open>None\<close> is undefined behaviour in one of the two loops. The argument \<open>x\<close> is the
  caller's vector and the three buffers are private members, so no two of the four
  vectors are the same object.
\<close>

definition stepper_improved_euler_do_step ::
  "stepper_improved_euler \<Rightarrow> system \<Rightarrow> state_type \<Rightarrow> time_type \<Rightarrow> time_type \<Rightarrow>
     (stepper_improved_euler \<times> state_type \<times> invocation list) option" where
  "stepper_improved_euler_do_step stepper system x t dt =
     (let dxdt1 = system x (m_dxdt1 stepper) t in
      case scale_two_sum (m_x stepper) 1 x dt dxdt1 of
        None \<Rightarrow> None
      | Some x_pred \<Rightarrow>
          (let dxdt2 = system x_pred (m_dxdt2 stepper) (t + dt) in
           case scale_two_sum_accumulate x (dt * 0.5) dxdt1 (dt * 0.5) dxdt2 of
             None \<Rightarrow> None
           | Some x' \<Rightarrow>
               Some (\<lparr>m_dxdt1 = dxdt1, m_dxdt2 = dxdt2, m_x = x_pred,
                       m_steps = m_steps stepper + 1\<rparr>,
                     x', [(x, t), (x_pred, t + dt)])))"

section \<open>The forward Euler stepper\<close>

text \<open>
  The class has one data member, the derivative buffer \<open>m_dxdt\<close>. Its overload of
  \<open>do_step\<close> with a precomputed derivative takes \<open>x\<close> by reference and \<open>dxdt\<close> by
  const reference, and a caller may hand it one vector for both; the other overload hands
  it the member \<open>m_dxdt\<close>. So the vectors live in a store, and the arguments are
  references into it: to a vector of the caller, or to the member of the stepper.
\<close>

datatype ref = Caller nat | This_m_dxdt

type_synonym store = "ref \<Rightarrow> state_type"

text \<open>The constructor value-initialises \<open>m_dxdt\<close>; \<open>State()\<close> is a parameter as above.\<close>

definition stepper_euler_new :: "state_type \<Rightarrow> store \<Rightarrow> store" where
  "stepper_euler_new State0 st = st(This_m_dxdt := State0)"

definition stepper_euler_order_step :: "store \<Rightarrow> 16 word" where
  "stepper_euler_order_step st = 1"

text \<open>
  Modelled from the spec: \<open>it_algebra::increment\<close> is called by the stepper but is not
  among the sources. \<open>increment(x, dxdt, dt)\<close>: for every index i,
  \<open>x[i] += dt * dxdt[i]\<close>. The stepper passes the range \<open>[x.begin(), x.end())\<close> and
  \<open>dxdt.begin()\<close>. The first argument counts the elements of the range still to visit
  and \<open>i\<close> is the index both iterators stand at; each round reads \<open>x[i]\<close> and \<open>dxdt[i]\<close>
  from the store as it is then and writes \<open>x[i]\<close>. Reading past the end of a vector is
  undefined behaviour, \<open>None\<close>.
\<close>

fun increment :: "nat \<Rightarrow> nat \<Rightarrow> ref \<Rightarrow> ref \<Rightarrow> real \<Rightarrow> store \<Rightarrow> store option" where
  "increment 0 i x dxdt dt st = Some st"
| "increment (Suc n) i x dxdt dt st =
     (if i < length (st x) \<and> i < length (st dxdt)
      then increment n (Suc i) x dxdt dt (st(x := (st x)[i := st x ! i + dt * st dxdt ! i]))
      else None)"

text \<open>
  \<open>do_step(system, x, dxdt, t, dt)\<close>, the overload with a precomputed derivative. The
  result is the new store and the invocations of the system made by the call.
\<close>

definition stepper_euler_do_step_dxdt ::
  "system \<Rightarrow> ref \<Rightarrow> ref \<Rightarrow> time_type \<Rightarrow> time_type \<Rightarrow> store \<Rightarrow>
     (store \<times> invocation list) option" where
  "stepper_euler_do_step_dxdt system x dxdt t dt st =
     map_option (\<lambda>st'. (st', [])) (increment (length (st x)) 0 x dxdt dt st)"

text \<open>\<open>do_step(system, x, t, dt)\<close>.\<close>

definition stepper_euler_do_step ::
  "system \<Rightarrow> ref \<Rightarrow> time_type \<Rightarrow> time_type \<Rightarrow> store \<Rightarrow> (store \<times> invocation list) option" where
  "stepper_euler_do_step system x t dt st =
     (let st1 = st(This_m_dxdt := system (st x) (st This_m_dxdt) t) in
      map_option (\<lambda>(st', calls). (st', (st x, t) # calls))
        (stepper_euler_do_step_dxdt system x This_m_dxdt t dt st1))"

section \<open>Members the two classes declare\<close>

datatype stepper_class = Stepper_euler | Stepper_improved_euler

text \<open>
  The static data member \<open>is_adaptive_stepper\<close> of a class: its value, or \<open>None\<close> where
  the class declares no such member.
\<close>

fun is_adaptive_stepper :: "stepper_class \<Rightarrow> bool option" where
  "is_adaptive_stepper Stepper_improved_euler = Some False"
| "is_adaptive_stepper Stepper_euler = None"

text \<open>
  The copy operations. \<open>stepper_improved_euler\<close> declares both as deleted;
  \<open>stepper_euler\<close> declares neither, so the compiler generates them member by member,
  and a copy compiles when the state type can be copied.
\<close>

datatype copy_operation = Copy_constructor | Copy_assignment

datatype copy_decl = Deleted | Undeclared

fun copy_declaration :: "stepper_class \<Rightarrow> copy_operation \<Rightarrow> copy_decl" where
  "copy_declaration Stepper_improved_euler op = Deleted"
| "copy_declaration Stepper_euler op = Undeclared"

definition copy_compiles :: "bool \<Rightarrow> stepper_class \<Rightarrow> copy_operation \<Rightarrow> bool" where
  "copy_compiles state_copyable c op =
     (case copy_declaration c op of Deleted \<Rightarrow> False | Undeclared \<Rightarrow> state_copyable)"

section \<open>The Improved Euler stepper over \<open>double\<close>\<close>

text \<open>
  Where a claim is about the very numbers a \<open>double\<close> computation yields, the arithmetic
  is IEEE 754 binary64: every \<open>+\<close> and \<open>*\<close> is the exact result rounded to the nearest
  number with a 53-bit significand, ties to the even significand, one rounding per
  operation. A finite \<open>double\<close> is the real number it stands for (the two zeros are one
  value, as they are under \<open>==\<close>).

  \<open>ilog2 r\<close> is the exponent of a positive \<open>r\<close>, the \<open>k\<close> with \<open>2^k \<le> r < 2^(k+1)\<close>;
  \<open>round_even\<close> rounds to the nearest integer, ties to even. \<open>binary64 r\<close> rounds \<open>r\<close>
  to a multiple of \<open>2^(k - 52)\<close>, of \<open>2^-1074\<close> in the subnormal range, and is \<open>None\<close>
  when the result is not finite (the rounded magnitude reaches \<open>2^1024\<close>), which the
  model follows no further.
\<close>

definition ilog2 :: "real \<Rightarrow> int" where
  "ilog2 r = (if 1 \<le> r then bitlen \<lfloor>r\<rfloor> - 1 else - bitlen (\<lceil>1 / r\<rceil> - 1))"

definition round_even :: "real \<Rightarrow> int" where
  "round_even r =
     (let n = \<lfloor>r\<rfloor>; d = r - of_int n
      in if d < 1 / 2 then n else if 1 / 2 < d then n + 1 else if even n then n else n + 1)"

definition binary64 :: "real \<Rightarrow> real option" where
  "binary64 r =
     (if r = 0 then Some 0
      else let e = max (ilog2 \<bar>r\<bar> - 52) (- 1074);
               v = of_int (round_even (r / 2 powi e)) * 2 powi e
           in if \<bar>v\<bar> < 2 ^ 1024 then Some v else None)"

definition add_double :: "real \<Rightarrow> real \<Rightarrow> real option" where
  "add_double a b = binary64 (a + b)"

definition mul_double :: "real \<Rightarrow> real \<Rightarrow> real option" where
  "mul_double a b = binary64 (a * b)"

text \<open>
  Modelled from the spec: \<open>scale_two_sum\<close> of the missing header, as above, with the
  operations of \<open>dest[i] = coeffA*a[i] + coeffB*b[i]\<close> in \<open>double\<close>: two products, then
  their sum.
\<close>

fun scale_two_sum_double ::
  "state_type \<Rightarrow> real \<Rightarrow> state_type \<Rightarrow> real \<Rightarrow> state_type \<Rightarrow> state_type option" where
  "scale_two_sum_double [] a1 xs a2 ys = Some []"
| "scale_two_sum_double (d # ds) a1 (x # xs) a2 (y # ys) =
     do { p \<leftarrow> mul_double a1 x;
          q \<leftarrow> mul_double a2 y;
          v \<leftarrow> add_double p q;
          vs \<leftarrow> scale_two_sum_double ds a1 xs a2 ys;
          Some (v # vs) }"
| "scale_two_sum_double (d # ds) a1 xs a2 ys = None"

text \<open>
  Modelled from the spec: \<open>scale_two_sum_accumulate\<close> of the missing header, as above,
  with the operations of \<open>dest[i] += coeffA*a[i] + coeffB*b[i]\<close> in \<open>double\<close>: two
  products, their sum, and then the sum of \<open>dest[i]\<close> and that.
\<close>

fun scale_two_sum_accumulate_double ::
  "state_type \<Rightarrow> real \<Rightarrow> state_type \<Rightarrow> real \<Rightarrow> state_type \<Rightarrow> state_type option" where
  "scale_two_sum_accumulate_double [] a1 xs a2 ys = Some []"
| "scale_two_sum_accumulate_double (d # ds) a1 (x # xs) a2 (y # ys) =
     do { p \<leftarrow> mul_double a1 x;
          q \<leftarrow> mul_double a2 y;
          s \<leftarrow> add_double p q;
          v \<leftarrow> add_double d s;
          vs \<leftarrow> scale_two_sum_accumulate_double ds a1 xs a2 ys;
          Some (v # vs) }"
| "scale_two_sum_accumulate_double (d # ds) a1 xs a2 ys = None"

text \<open>
  \<open>do_step\<close> with \<open>State\<close> a vector of \<open>double\<close> and \<open>Time\<close> \<open>double\<close>: the same calls in
  the same order, with \<open>t + dt\<close> and each of the two \<open>dt * .5\<close> rounded. The literals
  \<open>1.\<close> and \<open>.5\<close> are exact in binary64.
\<close>

definition stepper_improved_euler_do_step_double ::
  "stepper_improved_euler \<Rightarrow> system \<Rightarrow> state_type \<Rightarrow> time_type \<Rightarrow> time_type \<Rightarrow>
     (stepper_improved_euler \<times> state_type \<times> invocation list) option" where
  "stepper_improved_euler_do_step_double stepper system x t dt =
     do { let dxdt1 = system x (m_dxdt1 stepper) t;
          x_pred \<leftarrow> scale_two_sum_double (m_x stepper) 1 x dt dxdt1;
          t' \<leftarrow> add_double t dt;
          let dxdt2 = system x_pred (m_dxdt2 stepper) t';
          h1 \<leftarrow> mul_double dt 0.5;
          h2 \<leftarrow> mul_double dt 0.5;
          x' \<leftarrow> scale_two_sum_accumulate_double x h1 dxdt1 h2 dxdt2;
          Some (\<lparr>m_dxdt1 = dxdt1, m_dxdt2 = dxdt2, m_x = x_pred,
                  m_steps = m_steps stepper + 1\<rparr>,
                x', [(x, t), (x_pred, t')]) }"

section \<open>Calls on one Improved Euler stepper\<close>

text \<open>
  The calls a driver makes on a stepper that change it: \<open>do_step\<close>, with a system, a state
  and two times of the driver's choice, and \<open>adjust_size\<close>. (\<open>order_step\<close> and \<open>steps\<close>
  are \<open>const\<close>.) \<open>run\<close> makes the calls of a list one after the other and is \<open>None\<close>
  when a \<open>do_step\<close> among them does not complete; \<open>do_step_calls\<close> counts the
  \<open>do_step\<close> calls of the list.
\<close>

datatype call =
  Do_step system state_type time_type time_type
| Adjust_size state_type

fun do_step_calls :: "call list \<Rightarrow> nat" where
  "do_step_calls [] = 0"
| "do_step_calls (Do_step system x t dt # cs) = Suc (do_step_calls cs)"
| "do_step_calls (Adjust_size reference # cs) = do_step_calls cs"

fun run :: "bool \<Rightarrow> stepper_improved_euler \<Rightarrow> call list \<Rightarrow> stepper_improved_euler option" where
  "run has_resize stepper [] = Some stepper"
| "run has_resize stepper (Do_step system x t dt # cs) =
     (case stepper_improved_euler_do_step stepper system x t dt of
        None \<Rightarrow> None
      | Some (stepper', x', calls) \<Rightarrow> run has_resize stepper' cs)"
| "run has_resize stepper (Adjust_size reference # cs) =
     run has_resize (stepper_improved_euler_adjust_size has_resize stepper reference) cs"

section \<open>The systems and stores of the examples\<close>

text \<open>
  The system of the two scenarios of the specification: \<open>dxdt[0] = -x[0]\<close>. Negation is
  exact in binary64 too.
\<close>

definition decay :: system where
  "decay x dxdt t = dxdt[0 := - x ! 0]"

text \<open>A store in which every vector is \<open>[1]\<close>.\<close>

definition unit_store :: store where
  "unit_store r = [1]"

section \<open>Rounding to binary64\<close>

lemma pow2_le_real: "(2::int) ^ k \<le> n \<Longrightarrow> (2::real) ^ k \<le> of_int n"
  using of_int_le_iff [where ?'a = real, of "2 ^ k" n] by simp

lemma less_pow2_real: "n < (2::int) ^ k \<Longrightarrow> of_int n + 1 \<le> (2::real) ^ k"
  using of_int_le_iff [where ?'a = real, of "n + 1" "2 ^ k"] by simp

text \<open>\<open>ilog2\<close> is the binary exponent.\<close>

lemma ilog2_bounds:
  assumes "0 < r"
  shows "2 powi ilog2 r \<le> r \<and> r < 2 powi (ilog2 r + 1)"
proof (cases "1 \<le> r")
  case True
  define n where "n = \<lfloor>r\<rfloor>"
  have n: "0 < n" "of_int n \<le> r" "r < of_int n + 1"
    using True unfolding n_def by linarith+
  from bitlen_bounds [OF n(1)]
  have b: "2 ^ nat (bitlen n - 1) \<le> n" "n < 2 ^ nat (bitlen n)" by simp_all
  have pos: "0 < bitlen n" using n(1) b(2) by (cases "0 < bitlen n") auto
  have "(2::real) ^ nat (bitlen n - 1) \<le> r"
    using pow2_le_real [OF b(1)] n(2) by linarith
  then have lo: "2 powi (bitlen n - 1) \<le> r"
    using pos by (simp add: power_int_def)
  have "r < (2::real) ^ nat (bitlen n)"
    using less_pow2_real [OF b(2)] n(3) by linarith
  then have hi: "r < 2 powi (bitlen n)"
    using pos by (simp add: power_int_def)
  from lo hi True show ?thesis by (simp add: ilog2_def n_def)
next
  case False
  define m where "m = \<lceil>1 / r\<rceil> - 1"
  have q: "1 < 1 / r" using False assms by simp
  have m: "0 < m" "of_int m < 1 / r" "1 / r \<le> of_int m + 1"
    using q unfolding m_def by linarith+
  from bitlen_bounds [OF m(1)]
  have b: "2 ^ nat (bitlen m - 1) \<le> m" "m < 2 ^ nat (bitlen m)" by simp_all
  have pos: "0 < bitlen m" using m(1) b(2) by (cases "0 < bitlen m") auto
  have "1 / r \<le> (2::real) ^ nat (bitlen m)"
    using less_pow2_real [OF b(2)] m(3) by linarith
  then have "1 \<le> r * 2 ^ nat (bitlen m)"
    using assms by (simp add: field_simps)
  then have lo: "2 powi (- bitlen m) \<le> r"
    using pos by (simp add: power_int_def field_simps)
  have "(2::real) ^ nat (bitlen m - 1) < 1 / r"
    using pow2_le_real [OF b(1)] m(2) by linarith
  then have "r * 2 ^ nat (bitlen m - 1) < 1"
    using assms by (simp add: field_simps)
  moreover have "- bitlen m + 1 \<le> 0" "nat (- (- bitlen m + 1)) = nat (bitlen m - 1)"
    using pos by simp_all
  ultimately have hi: "r < 2 powi (- bitlen m + 1)"
    by (auto simp: power_int_def field_simps)
  from lo hi False show ?thesis by (simp add: ilog2_def m_def)
qed

lemma powi_mono2: "a \<le> b \<Longrightarrow> (2::real) powi a \<le> 2 powi b"
  by (rule power_int_increasing) simp_all

lemma ilog2_eq:
  assumes "2 powi k \<le> r" "r < 2 powi (k + 1)"
  shows "ilog2 r = k"
proof -
  have "(0::real) < 2 powi k" by simp
  then have "0 < r" using assms(1) by linarith
  from ilog2_bounds [OF this]
  have b: "2 powi ilog2 r \<le> r" "r < 2 powi (ilog2 r + 1)" by simp_all
  have "\<not> ilog2 r < k"
  proof
    assume "ilog2 r < k"
    then have "(2::real) powi (ilog2 r + 1) \<le> 2 powi k" by (intro powi_mono2) simp
    with b(2) assms(1) show False by linarith
  qed
  moreover have "\<not> k < ilog2 r"
  proof
    assume "k < ilog2 r"
    then have "(2::real) powi (k + 1) \<le> 2 powi ilog2 r" by (intro powi_mono2) simp
    with b(1) assms(2) show False by linarith
  qed
  ultimately show ?thesis by simp
qed

text \<open>Rounding a number whose exponent is known.\<close>

lemma binary64_at:
  assumes "2 powi k \<le> \<bar>r\<bar>" "\<bar>r\<bar> < 2 powi (k + 1)"
  shows "binary64 r =
     (let e = max (k - 52) (- 1074);
          v = of_int (round_even (r / 2 powi e)) * 2 powi e
      in if \<bar>v\<bar> < 2 ^ 1024 then Some v else None)"
proof -
  have "(0::real) < 2 powi k" by simp
  then have "r \<noteq> 0" using assms(1) by linarith
  then show ?thesis
    by (simp add: binary64_def ilog2_eq [OF assms])
qed

text \<open>The literals of the scenario, and the results of its operations.\<close>

lemma binary64_literals:
  "binary64 0.1 = Some (3602879701896397 / 2 ^ 55)"
  "binary64 0.05 = Some (3602879701896397 / 2 ^ 56)"
  "binary64 0.9 = Some (8106479329266893 / 2 ^ 53)"
  "binary64 0.905 = Some (4075757662770299 / 2 ^ 52)"
  using binary64_at [of "-4" "0.1"] binary64_at [of "-5" "0.05"]
    binary64_at [of "-1" "0.9"] binary64_at [of "-1" "0.905"]
  by (simp_all add: round_even_def Let_def)

lemma binary64_exact:
  "binary64 1 = Some 1"
  "binary64 (3602879701896397 / 2 ^ 55) = Some (3602879701896397 / 2 ^ 55)"
  "binary64 (- (3602879701896397 / 2 ^ 55)) = Some (- (3602879701896397 / 2 ^ 55))"
  "binary64 (3602879701896397 / 2 ^ 56) = Some (3602879701896397 / 2 ^ 56)"
  "binary64 (- (3602879701896397 / 2 ^ 56)) = Some (- (3602879701896397 / 2 ^ 56))"
  using binary64_at [of 0 1] binary64_at [of "-4" "3602879701896397 / 2 ^ 55"]
    binary64_at [of "-4" "- (3602879701896397 / 2 ^ 55)"]
    binary64_at [of "-5" "3602879701896397 / 2 ^ 56"]
    binary64_at [of "-5" "- (3602879701896397 / 2 ^ 56)"]
  by (simp_all add: round_even_def Let_def)

lemma binary64_rounded:
  "binary64 (1 + - (3602879701896397 / 2 ^ 55)) = Some (8106479329266893 / 2 ^ 53)"
  "binary64 (3602879701896397 / 2 ^ 56 * - (8106479329266893 / 2 ^ 53)) =
     Some (- (6485183463413515 / 2 ^ 57))"
  "binary64 (- (3602879701896397 / 2 ^ 56) + - (6485183463413515 / 2 ^ 57)) =
     Some (- (3422735716801577 / 2 ^ 55))"
  "binary64 (1 + - (3422735716801577 / 2 ^ 55)) = Some (4075757662770299 / 2 ^ 52)"
  "binary64 (1 + - (3602879701896397 / 2 ^ 56)) = Some (4278419646001971 / 2 ^ 52)"
  "binary64 (4278419646001971 / 2 ^ 52 + - (6485183463413515 / 2 ^ 57)) =
     Some (8151515325540597 / 2 ^ 53)"
  using binary64_at [of "-1" "1 + - (3602879701896397 / 2 ^ 55)"]
    binary64_at [of "-5" "3602879701896397 / 2 ^ 56 * - (8106479329266893 / 2 ^ 53)"]
    binary64_at [of "-4" "- (3602879701896397 / 2 ^ 56) + - (6485183463413515 / 2 ^ 57)"]
    binary64_at [of "-1" "1 + - (3422735716801577 / 2 ^ 55)"]
    binary64_at [of "-1" "1 + - (3602879701896397 / 2 ^ 56)"]
    binary64_at [of "-1" "4278419646001971 / 2 ^ 52 + - (6485183463413515 / 2 ^ 57)"]
  by (simp_all add: round_even_def Let_def)

section \<open>The loops of the iterator algebra\<close>

lemma scale_two_sum_eq:
  "length ds \<le> length xs \<Longrightarrow> length ds \<le> length ys \<Longrightarrow>
   scale_two_sum ds a1 xs a2 ys = Some (map (\<lambda>i. a1 * xs ! i + a2 * ys ! i) [0..<length ds])"
proof (induction ds a1 xs a2 ys rule: scale_two_sum.induct)
  case (2 d ds a1 x xs a2 y ys)
  then show ?case
    by (simp add: upt_conv_Cons map_Suc_upt [symmetric] del: upt_Suc)
qed simp_all

lemma scale_two_sum_accumulate_eq:
  "length ds \<le> length xs \<Longrightarrow> length ds \<le> length ys \<Longrightarrow>
   scale_two_sum_accumulate ds a1 xs a2 ys =
     Some (map (\<lambda>i. ds ! i + (a1 * xs ! i + a2 * ys ! i)) [0..<length ds])"
proof (induction ds a1 xs a2 ys rule: scale_two_sum_accumulate.induct)
  case (2 d ds a1 x xs a2 y ys)
  then show ?case
    by (simp add: upt_conv_Cons map_Suc_upt [symmetric] del: upt_Suc)
qed simp_all

text \<open>
  The loop of \<open>increment\<close>, started at index \<open>i\<close> with \<open>n\<close> elements to go. The equation
  holds whether or not \<open>x\<close> and \<open>dxdt\<close> are the same vector: round \<open>i\<close> reads index \<open>i\<close>
  of both before it writes index \<open>i\<close> of \<open>x\<close>, and no later round reads it.
\<close>

lemma increment_eq:
  "i + n = length (st x) \<Longrightarrow> length (st x) \<le> length (st dxdt) \<Longrightarrow>
   increment n i x dxdt dt st =
     Some (st(x := take i (st x) @ map (\<lambda>j. st x ! j + dt * st dxdt ! j) [i..<length (st x)]))"
proof (induction n arbitrary: i st)
  case 0
  then show ?case by simp
next
  case (Suc n)
  define v where "v = st x ! i + dt * st dxdt ! i"
  define st1 where "st1 = st(x := (st x)[i := v])"
  from Suc.prems have i: "i < length (st x)" "i < length (st dxdt)" by simp_all
  have p1: "Suc i + n = length (st1 x)" using Suc.prems by (simp add: st1_def)
  have p2: "length (st1 x) \<le> length (st1 dxdt)" using Suc.prems by (auto simp: st1_def)
  have step: "increment (Suc n) i x dxdt dt st = increment n (Suc i) x dxdt dt st1"
    using i by (simp add: st1_def v_def)
  have IH: "increment n (Suc i) x dxdt dt st1 =
     Some (st1(x := take (Suc i) (st1 x) @
       map (\<lambda>j. st1 x ! j + dt * st1 dxdt ! j) [Suc i..<length (st1 x)]))"
    using p1 p2 by (rule Suc.IH)
  have t: "take (Suc i) (st1 x) = take i (st x) @ [v]"
    using i by (simp add: st1_def take_Suc_conv_app_nth)
  have m: "map (\<lambda>j. st1 x ! j + dt * st1 dxdt ! j) [Suc i..<length (st1 x)]
     = map (\<lambda>j. st x ! j + dt * st dxdt ! j) [Suc i..<length (st x)]"
    by (rule map_cong) (auto simp: st1_def)
  have u: "[i..<length (st x)] = i # [Suc i..<length (st x)]"
    using i by (simp add: upt_conv_Cons)
  have ov: "st1(x := ys) = st(x := ys)" for ys
    by (simp add: st1_def)
  show ?case
    unfolding step IH t m ov by (subst u) (simp add: v_def)
qed

lemma do_step_dxdt_eq:
  assumes "length (st x) \<le> length (st dxdt)"
  shows "stepper_euler_do_step_dxdt system x dxdt t dt st =
     Some (st(x := map (\<lambda>i. st x ! i + dt * st dxdt ! i) [0..<length (st x)]), [])"
  using increment_eq [of 0 "length (st x)" st x dxdt dt] assms
  by (simp add: stepper_euler_do_step_dxdt_def)

lemma length_resize: "length (resize n xs) = n"
  by (simp add: resize_def)

lemma singleton_length: "length xs = Suc 0 \<Longrightarrow> \<exists>a. xs = [a]"
  by (cases xs) simp_all

lemma decay_length: "length (decay y d s) = length d"
  by (simp add: decay_def)

lemma decay_singleton: "length d = Suc 0 \<Longrightarrow> decay y d s = [- y ! 0]"
  by (auto simp: decay_def dest: singleton_length)

section \<open>One step of the Improved Euler stepper\<close>

lemma do_step_eq:
  assumes "length (m_dxdt1 stepper) = length x" "length (m_dxdt2 stepper) = length x"
    "length (m_x stepper) = length x"
    and sys: "\<And>y d s. length (system y d s) = length d"
  shows "stepper_improved_euler_do_step stepper system x t dt =
     (let f1 = system x (m_dxdt1 stepper) t;
          x_pred = map (\<lambda>i. 1 * x ! i + dt * f1 ! i) [0..<length x];
          f2 = system x_pred (m_dxdt2 stepper) (t + dt)
      in Some (\<lparr>m_dxdt1 = f1, m_dxdt2 = f2, m_x = x_pred, m_steps = m_steps stepper + 1\<rparr>,
               map (\<lambda>i. x ! i + (dt * 0.5 * f1 ! i + dt * 0.5 * f2 ! i)) [0..<length x],
               [(x, t), (x_pred, t + dt)]))"
proof -
  define f1 where "f1 = system x (m_dxdt1 stepper) t"
  define x_pred where "x_pred = map (\<lambda>i. 1 * x ! i + dt * f1 ! i) [0..<length x]"
  define f2 where "f2 = system x_pred (m_dxdt2 stepper) (t + dt)"
  have l1: "length f1 = length x" by (simp add: f1_def sys assms(1))
  have l2: "length f2 = length x" by (simp add: f2_def sys assms(2))
  have a: "scale_two_sum (m_x stepper) 1 x dt f1 = Some x_pred"
    using assms(3) l1 by (simp add: scale_two_sum_eq x_pred_def)
  have b: "scale_two_sum_accumulate x (dt * 0.5) f1 (dt * 0.5) f2 =
    Some (map (\<lambda>i. x ! i + (dt * 0.5 * f1 ! i + dt * 0.5 * f2 ! i)) [0..<length x])"
    using l1 l2 by (simp add: scale_two_sum_accumulate_eq)
  show ?thesis
    unfolding stepper_improved_euler_do_step_def Let_def
    unfolding f1_def [symmetric] a option.case x_pred_def [symmetric] f2_def [symmetric] b
    by (simp only: x_pred_def [symmetric])
qed

lemma do_step_m_steps:
  "stepper_improved_euler_do_step stepper system x t dt = Some (stepper', x', calls) \<Longrightarrow>
   m_steps stepper' = m_steps stepper + 1"
  by (auto simp: stepper_improved_euler_do_step_def Let_def split: option.splits)

lemma run_m_steps:
  "run has_resize stepper calls = Some stepper' \<Longrightarrow>
   m_steps stepper' = m_steps stepper + word_of_nat (do_step_calls calls)"
proof (induction has_resize stepper calls rule: run.induct)
  case (1 has_resize stepper)
  then show ?case by simp
next
  case (2 has_resize stepper system x t dt cs)
  then show ?case
    by (auto split: option.splits dest!: do_step_m_steps)
next
  case (3 has_resize stepper reference cs)
  then show ?case
    by (simp add: stepper_improved_euler_adjust_size_def split: if_splits)
qed

text \<open>Steps on a state of the length of the buffers all complete.\<close>

lemma run_replicate:
  assumes "\<And>y d s. length (system y d s) = length d"
  shows "length (m_dxdt1 stepper) = length x \<Longrightarrow> length (m_dxdt2 stepper) = length x \<Longrightarrow>
    length (m_x stepper) = length x \<Longrightarrow>
    \<exists>stepper'. run has_resize stepper (replicate n (Do_step system x t dt)) = Some stepper'"
proof (induction n arbitrary: stepper)
  case 0
  then show ?case by simp
next
  case (Suc n)
  note eq = do_step_eq [OF Suc.prems assms, where t = t and dt = dt]
  then obtain s1 x1 c1
    where s1: "stepper_improved_euler_do_step stepper system x t dt = Some (s1, x1, c1)"
      and l: "length (m_dxdt1 s1) = length x" "length (m_dxdt2 s1) = length x"
        "length (m_x s1) = length x"
    by (simp add: Let_def assms Suc.prems)
  from Suc.IH [OF l] show ?case
    by (simp add: s1)
qed

section \<open>Claims on the Improved Euler stepper\<close>



text \<open>
  C3. \<open>steps()\<close> is 0 on a freshly constructed stepper. Whatever \<open>do_step\<close> and
  \<open>adjust_size\<close> calls are made on a stepper, once they have all completed \<open>steps()\<close> is
  its value before them plus the number of \<open>do_step\<close> calls among them, in the arithmetic
  of \<open>unsigned long\<close>: the sum modulo \<open>2^64\<close>. So every \<open>do_step\<close> adds one, \<open>adjust_size\<close>
  adds nothing, and after \<open>k\<close> steps a fresh stepper reports \<open>k mod 2^64\<close>, which is \<open>k\<close>
  for every \<open>k\<close> below \<open>2^64\<close>.
\<close>

theorem steps_counts_do_step_calls:
  assumes "run has_resize stepper calls = Some stepper'"
  shows "stepper_improved_euler_steps (stepper_improved_euler_new State0) = 0 \<and>
         stepper_improved_euler_steps stepper' =
           stepper_improved_euler_steps stepper + word_of_nat (do_step_calls calls) \<and>
         unat (stepper_improved_euler_steps stepper') =
           (unat (stepper_improved_euler_steps stepper) + do_step_calls calls) mod 2 ^ 64"
proof -
  have "m_steps stepper' = m_steps stepper + word_of_nat (do_step_calls calls)"
    using assms by (rule run_m_steps)
  then show ?thesis
    by (simp add: stepper_improved_euler_steps_def stepper_improved_euler_new_def
        unat_word_ariths unat_of_nat mod_add_right_eq)
qed

theorem steps_counts_do_step_calls_witness:
  "run True (stepper_improved_euler_new [])
      [Adjust_size [1], Do_step decay [1] 0 0.1, Do_step decay [1] 0 0.1] =
     Some \<lparr>m_dxdt1 = [-1], m_dxdt2 = [-0.9], m_x = [0.9], m_steps = 2\<rparr> \<and>
   stepper_improved_euler_steps (stepper_improved_euler_new []) = 0 \<and>
   stepper_improved_euler_steps \<lparr>m_dxdt1 = [-1], m_dxdt2 = [-0.9], m_x = [0.9], m_steps = 2\<rparr> = 2 \<and>
   unat (stepper_improved_euler_steps
      \<lparr>m_dxdt1 = [-1], m_dxdt2 = [-0.9], m_x = [0.9], m_steps = 2\<rparr>) = 2"
proof -
  have h: "run True (stepper_improved_euler_new [])
      [Adjust_size [1], Do_step decay [1] 0 0.1, Do_step decay [1] 0 0.1] =
     Some \<lparr>m_dxdt1 = [-1], m_dxdt2 = [-0.9], m_x = [0.9], m_steps = 2\<rparr>"
    by (simp add: stepper_improved_euler_new_def stepper_improved_euler_adjust_size_def
        resize_def stepper_improved_euler_do_step_def decay_def Let_def)
  show ?thesis
    using h steps_counts_do_step_calls [OF h, of "[]"]
    by (simp add: stepper_improved_euler_steps_def stepper_improved_euler_new_def)
qed

text \<open>
  The claim fails at \<open>k = 2^64\<close>: on a fresh stepper over a state type of one element,
  \<open>2^64\<close> steps on the state \<open>[1]\<close> all complete, and \<open>steps()\<close> is then 0.
\<close>

theorem steps_counts_do_step_calls_counterexample:
  "map_option stepper_improved_euler_steps
     (run False (stepper_improved_euler_new [0]) (replicate (2 ^ 64) (Do_step decay [1] 0 0.1)))
     = Some 0 \<and>
   do_step_calls (replicate (2 ^ 64) (Do_step decay [1] 0 0.1)) = 2 ^ 64"
proof -
  have cnt: "do_step_calls (replicate n (Do_step decay [1] 0 0.1)) = n" for n
    by (induction n) simp_all
  obtain stepper' where r: "run False (stepper_improved_euler_new [0])
      (replicate (2 ^ 64) (Do_step decay [1] 0 0.1)) = Some stepper'"
    using run_replicate [where system = decay and stepper = "stepper_improved_euler_new [0]"
        and x = "[1]" and has_resize = False and n = "2 ^ 64" and t = 0 and dt = "0.1"]
    by (auto simp: decay_length stepper_improved_euler_new_def)
  have "m_steps stepper' = 0"
    using run_m_steps [OF r] by (simp add: cnt stepper_improved_euler_new_def)
  then show ?thesis
    unfolding r cnt by (simp add: stepper_improved_euler_steps_def)
qed

text \<open>
  C6. On a state type with \<open>resize\<close>, \<open>adjust_size(reference)\<close> gives each of the three
  buffers the length of \<open>reference\<close> and leaves the counter as it is; on a state type
  without, it leaves the stepper as it is.
\<close>

theorem adjust_size_lengths:
  "length (m_dxdt1 (stepper_improved_euler_adjust_size True stepper reference)) = length reference \<and>
   length (m_dxdt2 (stepper_improved_euler_adjust_size True stepper reference)) = length reference \<and>
   length (m_x (stepper_improved_euler_adjust_size True stepper reference)) = length reference \<and>
   m_steps (stepper_improved_euler_adjust_size True stepper reference) = m_steps stepper \<and>
   stepper_improved_euler_adjust_size False stepper reference = stepper"
  by (simp add: stepper_improved_euler_adjust_size_def length_resize)

text \<open>
  C7. Over \<open>double\<close>, with the system \<open>dxdt[0] = -x[0]\<close>, the state \<open>[1.0]\<close>, \<open>t = 0\<close> and
  \<open>dt = 0.1\<close>, on a stepper whose buffers have one element each, one \<open>do_step\<close> leaves
  \<open>f1 = [-1.0]\<close> in the first derivative buffer, \<open>[0.9]\<close> in the predicted state,
  \<open>f2 = [-0.9]\<close> in the second derivative buffer and the state \<open>[0.905]\<close>, each the
  \<open>double\<close> of that literal. The new \<open>x[0]\<close> is \<open>1.0 + (0.05*(-1.0) + 0.05*(-0.9))\<close>,
  the sum of the two products added to \<open>1.0\<close>.
\<close>

theorem improved_euler_scenario:
  assumes "length (m_dxdt1 stepper) = 1"
    and "length (m_dxdt2 stepper) = 1"
    and "length (m_x stepper) = 1"
  shows "binary64 0.1 = Some (3602879701896397 / 2 ^ 55) \<and>
     binary64 0.9 = Some (8106479329266893 / 2 ^ 53) \<and>
     binary64 0.905 = Some (4075757662770299 / 2 ^ 52) \<and>
     binary64 0.05 = Some (3602879701896397 / 2 ^ 56) \<and>
     stepper_improved_euler_do_step_double stepper decay [1] 0 (3602879701896397 / 2 ^ 55) =
       Some (\<lparr>m_dxdt1 = [- 1], m_dxdt2 = [- (8106479329266893 / 2 ^ 53)],
               m_x = [8106479329266893 / 2 ^ 53], m_steps = m_steps stepper + 1\<rparr>,
             [4075757662770299 / 2 ^ 52],
             [([1], 0), ([8106479329266893 / 2 ^ 53], 3602879701896397 / 2 ^ 55)]) \<and>
     mul_double (3602879701896397 / 2 ^ 56) (- 1) = Some (- (3602879701896397 / 2 ^ 56)) \<and>
     mul_double (3602879701896397 / 2 ^ 56) (- (8106479329266893 / 2 ^ 53)) =
       Some (- (6485183463413515 / 2 ^ 57)) \<and>
     add_double (- (3602879701896397 / 2 ^ 56)) (- (6485183463413515 / 2 ^ 57)) =
       Some (- (3422735716801577 / 2 ^ 55)) \<and>
     add_double 1 (- (3422735716801577 / 2 ^ 55)) = Some (4075757662770299 / 2 ^ 52)"
proof -
  from assms obtain a b c
    where "m_dxdt1 stepper = [a]" "m_dxdt2 stepper = [b]" "m_x stepper = [c]"
    by (auto dest!: singleton_length)
  then have "stepper_improved_euler_do_step_double stepper decay [1] 0
       (3602879701896397 / 2 ^ 55) =
     Some (\<lparr>m_dxdt1 = [- 1], m_dxdt2 = [- (8106479329266893 / 2 ^ 53)],
             m_x = [8106479329266893 / 2 ^ 53], m_steps = m_steps stepper + 1\<rparr>,
           [4075757662770299 / 2 ^ 52],
           [([1], 0), ([8106479329266893 / 2 ^ 53], 3602879701896397 / 2 ^ 55)])"
    using binary64_exact binary64_rounded
    by (simp add: stepper_improved_euler_do_step_double_def decay_def
        add_double_def mul_double_def)
  moreover have
    "mul_double (3602879701896397 / 2 ^ 56) (- 1) = Some (- (3602879701896397 / 2 ^ 56))"
    "mul_double (3602879701896397 / 2 ^ 56) (- (8106479329266893 / 2 ^ 53)) =
       Some (- (6485183463413515 / 2 ^ 57))"
    "add_double (- (3602879701896397 / 2 ^ 56)) (- (6485183463413515 / 2 ^ 57)) =
       Some (- (3422735716801577 / 2 ^ 55))"
    "add_double 1 (- (3422735716801577 / 2 ^ 55)) = Some (4075757662770299 / 2 ^ 52)"
    using binary64_exact binary64_rounded
    by (simp_all add: add_double_def mul_double_def)
  ultimately show ?thesis
    using binary64_literals by simp
qed

theorem improved_euler_scenario_witness:
  "stepper_improved_euler_do_step_double
     (stepper_improved_euler_adjust_size True (stepper_improved_euler_new []) [1])
     decay [1] 0 (3602879701896397 / 2 ^ 55) =
   Some (\<lparr>m_dxdt1 = [- 1], m_dxdt2 = [- (8106479329266893 / 2 ^ 53)],
           m_x = [8106479329266893 / 2 ^ 53], m_steps = 1\<rparr>,
         [4075757662770299 / 2 ^ 52],
         [([1], 0), ([8106479329266893 / 2 ^ 53], 3602879701896397 / 2 ^ 55)])"
proof -
  let ?s = "stepper_improved_euler_adjust_size True (stepper_improved_euler_new []) [1]"
  have h1: "length (m_dxdt1 ?s) = 1"
    by (simp add: stepper_improved_euler_adjust_size_def resize_def)
  have h2: "length (m_dxdt2 ?s) = 1"
    by (simp add: stepper_improved_euler_adjust_size_def resize_def)
  have h3: "length (m_x ?s) = 1"
    by (simp add: stepper_improved_euler_adjust_size_def resize_def)
  have "m_steps ?s = 0"
    by (simp add: stepper_improved_euler_adjust_size_def stepper_improved_euler_new_def)
  with improved_euler_scenario [OF h1 h2 h3] show ?thesis
    by simp
qed

text \<open>
  The claim fails in its middle term. After the step \<open>x[0]\<close> is the \<open>double\<close> \<open>0.905\<close>, but
  \<open>1.0 + 0.05*(-1.0) + 0.05*(-0.9)\<close>, which \<open>double\<close> evaluates from the left as
  \<open>(1.0 + 0.05*(-1.0)) + 0.05*(-0.9)\<close>, is \<open>0.95 + (-0.045...)\<close> rounded: one unit in the
  last place less.
\<close>

theorem improved_euler_scenario_counterexample:
  "stepper_improved_euler_do_step_double
     \<lparr>m_dxdt1 = [0], m_dxdt2 = [0], m_x = [0], m_steps = 0\<rparr>
     decay [1] 0 (3602879701896397 / 2 ^ 55) =
   Some (\<lparr>m_dxdt1 = [- 1], m_dxdt2 = [- (8106479329266893 / 2 ^ 53)],
           m_x = [8106479329266893 / 2 ^ 53], m_steps = 1\<rparr>,
         [4075757662770299 / 2 ^ 52],
         [([1], 0), ([8106479329266893 / 2 ^ 53], 3602879701896397 / 2 ^ 55)]) \<and>
   binary64 0.1 = Some (3602879701896397 / 2 ^ 55) \<and>
   binary64 0.05 = Some (3602879701896397 / 2 ^ 56) \<and>
   binary64 0.9 = Some (8106479329266893 / 2 ^ 53) \<and>
   mul_double (3602879701896397 / 2 ^ 56) (- 1) = Some (- (3602879701896397 / 2 ^ 56)) \<and>
   add_double 1 (- (3602879701896397 / 2 ^ 56)) = Some (4278419646001971 / 2 ^ 52) \<and>
   mul_double (3602879701896397 / 2 ^ 56) (- (8106479329266893 / 2 ^ 53)) =
     Some (- (6485183463413515 / 2 ^ 57)) \<and>
   add_double (4278419646001971 / 2 ^ 52) (- (6485183463413515 / 2 ^ 57)) =
     Some (8151515325540597 / 2 ^ 53) \<and>
   (4075757662770299 / 2 ^ 52 :: real) \<noteq> 8151515325540597 / 2 ^ 53"
proof -
  have "stepper_improved_euler_do_step_double
     \<lparr>m_dxdt1 = [0], m_dxdt2 = [0], m_x = [0], m_steps = 0\<rparr>
     decay [1] 0 (3602879701896397 / 2 ^ 55) =
   Some (\<lparr>m_dxdt1 = [- 1], m_dxdt2 = [- (8106479329266893 / 2 ^ 53)],
           m_x = [8106479329266893 / 2 ^ 53], m_steps = 1\<rparr>,
         [4075757662770299 / 2 ^ 52],
         [([1], 0), ([8106479329266893 / 2 ^ 53], 3602879701896397 / 2 ^ 55)])"
    using binary64_exact binary64_rounded
    by (simp add: stepper_improved_euler_do_step_double_def decay_def
        add_double_def mul_double_def)
  moreover have
    "mul_double (3602879701896397 / 2 ^ 56) (- 1) = Some (- (3602879701896397 / 2 ^ 56))"
    "add_double 1 (- (3602879701896397 / 2 ^ 56)) = Some (4278419646001971 / 2 ^ 52)"
    "mul_double (3602879701896397 / 2 ^ 56) (- (8106479329266893 / 2 ^ 53)) =
       Some (- (6485183463413515 / 2 ^ 57))"
    "add_double (4278419646001971 / 2 ^ 52) (- (6485183463413515 / 2 ^ 57)) =
       Some (8151515325540597 / 2 ^ 53)"
    using binary64_exact binary64_rounded
    by (simp_all add: add_double_def mul_double_def)
  ultimately show ?thesis
    using binary64_literals by simp
qed

text \<open>
  C10. Take two steppers whose buffers have the length of \<open>x\<close> and hold anything, and a
  system that keeps the length of the buffer it writes and whose output does not depend
  on what the buffer held. Then \<open>do_step(system, x, t, dt)\<close> completes on both, with the
  same new \<open>x\<close>, the same invocations of the system and the same new buffers, and each
  counter is one more than it was.
\<close>

theorem improved_euler_do_step_ignores_scratch:
  assumes "length (m_dxdt1 stepper1) = length x"
    and "length (m_dxdt2 stepper1) = length x"
    and "length (m_x stepper1) = length x"
    and "length (m_dxdt1 stepper2) = length x"
    and "length (m_dxdt2 stepper2) = length x"
    and "length (m_x stepper2) = length x"
    and len: "\<And>y d s. length (system y d s) = length d"
    and indep: "\<And>y d d' s. length d = length x \<Longrightarrow> length d' = length x \<Longrightarrow>
                  system y d s = system y d' s"
  shows "\<exists>s1 s2 x' calls.
     stepper_improved_euler_do_step stepper1 system x t dt = Some (s1, x', calls) \<and>
     stepper_improved_euler_do_step stepper2 system x t dt = Some (s2, x', calls) \<and>
     m_steps s1 = m_steps stepper1 + 1 \<and> m_steps s2 = m_steps stepper2 + 1 \<and>
     m_dxdt1 s1 = m_dxdt1 s2 \<and> m_dxdt2 s1 = m_dxdt2 s2 \<and> m_x s1 = m_x s2"
proof -
  have f1: "system x (m_dxdt1 stepper1) t = system x (m_dxdt1 stepper2) t"
    using assms(1,4) by (rule indep)
  have f2: "system y (m_dxdt2 stepper1) s = system y (m_dxdt2 stepper2) s" for y s
    using assms(2,5) by (rule indep)
  show ?thesis
    unfolding do_step_eq [OF assms(1-3) len] do_step_eq [OF assms(4-6) len]
    by (simp add: Let_def f1 f2)
qed

theorem improved_euler_do_step_ignores_scratch_witness:
  "\<exists>s1 s2 x' calls.
     stepper_improved_euler_do_step
       \<lparr>m_dxdt1 = [5], m_dxdt2 = [6], m_x = [7], m_steps = 3\<rparr> decay [1] 0 0.1
       = Some (s1, x', calls) \<and>
     stepper_improved_euler_do_step
       \<lparr>m_dxdt1 = [0], m_dxdt2 = [0], m_x = [0], m_steps = 8\<rparr> decay [1] 0 0.1
       = Some (s2, x', calls) \<and>
     m_steps s1 = 3 + 1 \<and> m_steps s2 = 8 + 1 \<and>
     m_dxdt1 s1 = m_dxdt1 s2 \<and> m_dxdt2 s1 = m_dxdt2 s2 \<and> m_x s1 = m_x s2"
proof -
  let ?a = "\<lparr>m_dxdt1 = [5], m_dxdt2 = [6], m_x = [7], m_steps = 3\<rparr>"
  let ?b = "\<lparr>m_dxdt1 = [0], m_dxdt2 = [0], m_x = [0], m_steps = 8\<rparr>"
  have a: "length (m_dxdt1 ?a) = length [1 :: real]" "length (m_dxdt2 ?a) = length [1 :: real]"
    "length (m_x ?a) = length [1 :: real]" by simp_all
  have b: "length (m_dxdt1 ?b) = length [1 :: real]" "length (m_dxdt2 ?b) = length [1 :: real]"
    "length (m_x ?b) = length [1 :: real]" by simp_all
  have len: "\<And>y d s. length (decay y d s) = length d" by (rule decay_length)
  have indep: "\<And>y d d' s. length d = length [1 :: real] \<Longrightarrow> length d' = length [1 :: real] \<Longrightarrow>
                  decay y d s = decay y d' s"
    by (simp add: decay_singleton)
  from improved_euler_do_step_ignores_scratch [OF a b len indep, where t = 0 and dt = "0.1"]
  show ?thesis by simp
qed

section \<open>Claims on the forward Euler stepper\<close>

text \<open>
  C2. For a vector \<open>x\<close> of the caller, \<open>do_step(system, x, t, dt)\<close> writes
  \<open>dxdt = system(x, t)\<close> into the member \<open>m_dxdt\<close> and, when that derivative has the
  length of \<open>x\<close>, completes with \<open>x[i] + dt * dxdt[i]\<close> at every index of \<open>x\<close>. Every
  other vector of the store is as before, and the system is invoked once, on \<open>(x, t)\<close>.
\<close>

theorem euler_do_step_increments:
  assumes "length (system (st (Caller a)) (st This_m_dxdt) t) = length (st (Caller a))"
  shows "stepper_euler_do_step system (Caller a) t dt st =
     (let x = st (Caller a);
          dxdt = system x (st This_m_dxdt) t
      in Some (st(This_m_dxdt := dxdt,
                  Caller a := map (\<lambda>i. x ! i + dt * dxdt ! i) [0..<length x]),
               [(x, t)]))"
proof -
  let ?dxdt = "system (st (Caller a)) (st This_m_dxdt) t"
  let ?st1 = "st(This_m_dxdt := ?dxdt)"
  have "length (?st1 (Caller a)) \<le> length (?st1 This_m_dxdt)"
    using assms by simp
  then have "stepper_euler_do_step_dxdt system (Caller a) This_m_dxdt t dt ?st1 =
     Some (?st1(Caller a := map (\<lambda>i. ?st1 (Caller a) ! i + dt * ?st1 This_m_dxdt ! i)
       [0..<length (?st1 (Caller a))]), [])"
    by (rule do_step_dxdt_eq)
  then show ?thesis
    by (simp add: stepper_euler_do_step_def Let_def)
qed

theorem euler_do_step_increments_witness:
  "stepper_euler_do_step decay (Caller 0) 0 0.1 unit_store =
     Some (unit_store(This_m_dxdt := [-1], Caller 0 := [0.9]), [([1], 0)])"
proof -
  have h: "length (decay (unit_store (Caller 0)) (unit_store This_m_dxdt) 0) =
      length (unit_store (Caller 0))"
    by (simp add: decay_def unit_store_def)
  show ?thesis
    unfolding euler_do_step_increments
      [where system = decay and st = unit_store and a = 0 and t = 0, OF h]
    by (simp add: decay_def unit_store_def Let_def)
qed

text \<open>
  C8. The overload \<open>do_step(system, x, dxdt, t, dt)\<close>, called on a vector \<open>x\<close> of the
  caller and any \<open>dxdt\<close> at least as long, the same vector as \<open>x\<close> or another, completes
  without invoking the system (whatever system it is given, the result is the same),
  writes \<open>x[i] + dt * dxdt[i]\<close> into \<open>x\<close>, and leaves the member \<open>m_dxdt\<close> and every
  vector other than \<open>x\<close> as they were; so it leaves \<open>dxdt\<close> as it was unless \<open>dxdt\<close> is
  \<open>x\<close>.
\<close>

theorem euler_do_step_dxdt_frame:
  assumes "length (st (Caller a)) \<le> length (st dxdt)"
  shows "\<exists>st'. stepper_euler_do_step_dxdt system (Caller a) dxdt t dt st = Some (st', []) \<and>
     stepper_euler_do_step_dxdt system' (Caller a) dxdt t dt st = Some (st', []) \<and>
     st' (Caller a) =
       map (\<lambda>i. st (Caller a) ! i + dt * st dxdt ! i) [0..<length (st (Caller a))] \<and>
     st' This_m_dxdt = st This_m_dxdt \<and>
     (\<forall>r. r = Caller a \<or> st' r = st r) \<and>
     (dxdt = Caller a \<or> st' dxdt = st dxdt)"
  using assms by (simp add: do_step_dxdt_eq)

theorem euler_do_step_dxdt_frame_witness:
  "\<exists>st'. stepper_euler_do_step_dxdt decay (Caller 0) (Caller 1) 0 1 unit_store = Some (st', []) \<and>
     st' (Caller 0) = [2] \<and> st' (Caller 1) = [1] \<and> st' This_m_dxdt = [1]"
proof -
  have h: "length (unit_store (Caller 0)) \<le> length (unit_store (Caller 1))"
    by (simp add: unit_store_def)
  from euler_do_step_dxdt_frame [OF h, where t = 0 and dt = 1 and system = decay]
  obtain st' where
    "stepper_euler_do_step_dxdt decay (Caller 0) (Caller 1) 0 1 unit_store = Some (st', [])"
    "st' (Caller 0) =
       map (\<lambda>i. unit_store (Caller 0) ! i + 1 * unit_store (Caller 1) ! i)
         [0..<length (unit_store (Caller 0))]"
    "Caller 1 = Caller 0 \<or> st' (Caller 1) = unit_store (Caller 1)"
    "st' This_m_dxdt = unit_store This_m_dxdt"
    by blast
  then show ?thesis
    by (intro exI [of _ st']) (simp add: unit_store_def)
qed

text \<open>
  The claim fails when the caller hands the overload one vector as \<open>x\<close> and as \<open>dxdt\<close>:
  the call completes, and the vector passed as \<open>dxdt\<close> has changed from \<open>[1]\<close> to \<open>[2]\<close>.
\<close>

theorem euler_do_step_dxdt_frame_counterexample:
  "stepper_euler_do_step_dxdt decay (Caller 0) (Caller 0) 0 1 unit_store =
     Some (unit_store(Caller 0 := [2]), []) \<and>
   unit_store (Caller 0) = [1] \<and>
   (unit_store(Caller 0 := [2])) (Caller 0) \<noteq> unit_store (Caller 0)"
  by (simp add: stepper_euler_do_step_dxdt_def unit_store_def)

section \<open>Claims on both classes\<close>

text \<open>
  C4. \<open>order_step()\<close> returns 1 on every forward Euler stepper and on every Improved
  Euler stepper, whatever the instance holds.
\<close>

theorem order_step_is_one:
  "stepper_euler_order_step st = 1 \<and> stepper_improved_euler_order_step stepper = 1"
  by (simp add: stepper_euler_order_step_def stepper_improved_euler_order_step_def)

text \<open>
  C5. The Improved Euler class declares \<open>is_adaptive_stepper\<close>, and it is false; the
  forward Euler class declares no member of that name.
\<close>

theorem is_adaptive_stepper_declared:
  "is_adaptive_stepper Stepper_improved_euler = Some False \<and>
   is_adaptive_stepper Stepper_euler = None"
  by simp

text \<open>The claim fails for the forward Euler class: it has no such member to be false.\<close>

theorem is_adaptive_stepper_declared_counterexample:
  "is_adaptive_stepper Stepper_euler \<noteq> Some False"
  by simp

text \<open>
  C9. Both copy operations of the Improved Euler class are deleted, so no copy of it
  compiles. The forward Euler class declares neither, and a copy of it compiles whenever
  its state type can be copied.
\<close>

theorem copy_operations_declared:
  "copy_declaration Stepper_improved_euler op = Deleted \<and>
   \<not> copy_compiles state_copyable Stepper_improved_euler op \<and>
   copy_declaration Stepper_euler op = Undeclared \<and>
   copy_compiles True Stepper_euler op \<and>
   \<not> copy_compiles False Stepper_euler op"
  by (simp add: copy_compiles_def)

text \<open>
  The claim fails for the forward Euler class: over a state type that can be copied, its
  copy constructor and its copy assignment both compile.
\<close>

theorem copy_operations_declared_counterexample:
  "copy_compiles True Stepper_euler Copy_constructor \<and>
   copy_compiles True Stepper_euler Copy_assignment"
  by (simp add: copy_compiles_def)

end
